theory Spec2Isabelle
  imports Main
begin

section \<open>JavaScript values\<close>

text \<open>
  The values that travel through the client: \<open>undefined\<close>, \<open>null\<close>, booleans, numbers,
  strings, arrays and plain objects. Numbers are modelled as integers (versions and keys
  are whole numbers; \<open>NaN\<close> and fractions are not represented). Functions, symbols and
  bigints do not occur in the modelled requests.
\<close>

datatype jsval =
    JUndefined
  | JNull
  | JBool bool
  | JNum int
  | JStr string
  | JArr "jsval list"
  | JObj "(string \<times> jsval) list"

text \<open>JavaScript's \<open>typeof\<close>: \<open>null\<close>, arrays and plain objects all report \<open>object\<close>.\<close>

fun js_typeof :: "jsval \<Rightarrow> string" where
  "js_typeof JUndefined = ''undefined''"
| "js_typeof JNull = ''object''"
| "js_typeof (JBool b) = ''boolean''"
| "js_typeof (JNum n) = ''number''"
| "js_typeof (JStr s) = ''string''"
| "js_typeof (JArr xs) = ''object''"
| "js_typeof (JObj ps) = ''object''"

text \<open>Truthiness, as used by \<open>!x\<close> and \<open>a || b\<close>.\<close>

fun truthy :: "jsval \<Rightarrow> bool" where
  "truthy JUndefined = False"
| "truthy JNull = False"
| "truthy (JBool b) = b"
| "truthy (JNum n) = (n \<noteq> 0)"
| "truthy (JStr s) = (s \<noteq> [])"
| "truthy (JArr xs) = True"
| "truthy (JObj ps) = True"

definition js_or :: "jsval \<Rightarrow> jsval \<Rightarrow> jsval" where
  "js_or a b = (if truthy a then a else b)"

text \<open>
  A mutable object is a finite map from property names to values; reading a property that
  is absent gives \<open>undefined\<close>. Objects that the caller shares with the client live in a
  heap and are passed by reference.
\<close>

type_synonym obj = "string \<rightharpoonup> jsval"

definition get_prop :: "obj \<Rightarrow> string \<Rightarrow> jsval" where
  "get_prop ob k = (case ob k of None \<Rightarrow> JUndefined | Some v \<Rightarrow> v)"

type_synonym ref = nat

text \<open>A thrown \<open>Error\<close> (or a rejected promise) carries its message.\<close>

datatype error = Error string

section \<open>String primitives\<close>

text \<open>\<open>String.prototype.startsWith\<close>, \<open>includes\<close> and \<open>indexOf\<close> (search from position 0).\<close>

fun startsWith :: "string \<Rightarrow> string \<Rightarrow> bool" where
  "startsWith s [] = True"
| "startsWith [] (c # cs) = False"
| "startsWith (x # xs) (c # cs) = (x = c \<and> startsWith xs cs)"

fun js_includes :: "string \<Rightarrow> string \<Rightarrow> bool" where
  "js_includes [] t = (t = [])"
| "js_includes (x # xs) t = (startsWith (x # xs) t \<or> js_includes xs t)"

fun indexOf_from :: "string \<Rightarrow> string \<Rightarrow> int \<Rightarrow> int" where
  "indexOf_from [] t i = (if t = [] then i else - 1)"
| "indexOf_from (x # xs) t i = (if startsWith (x # xs) t then i else indexOf_from xs t (i + 1))"

definition indexOf :: "string \<Rightarrow> string \<Rightarrow> int" where
  "indexOf s t = indexOf_from s t 0"

section \<open>ConnectionFactory\<close>

datatype GrpcConnectionProfile = CAMUNDA_CLOUD | VANILLA

record Characteristics =
  startupTime :: int
  tag :: GrpcConnectionProfile

fun ConnectionCharacteristics :: "GrpcConnectionProfile \<Rightarrow> Characteristics" where
  "ConnectionCharacteristics CAMUNDA_CLOUD = \<lparr>startupTime = 5000, tag = CAMUNDA_CLOUD\<rparr>"
| "ConnectionCharacteristics VANILLA = \<lparr>startupTime = 0, tag = VANILLA\<rparr>"

definition getCharacteristics :: "string \<Rightarrow> Characteristics" where
  "getCharacteristics host =
     (let isCamundaCloud = js_includes host ''zeebe.camunda.io'';
          profile = (if isCamundaCloud then CAMUNDA_CLOUD else VANILLA)
      in ConnectionCharacteristics profile)"

section \<open>ZBClient: construction, worker factory and close\<close>

datatype color = yellow | green | cyan | magenta | blue

definition idColors :: "color list" where
  "idColors = [yellow, green, cyan, magenta, blue]"

text \<open>
  The client object. The transport stub is whatever \<open>new GRPCClient(proto, package,
  service, address)\<close> returns (type \<open>'g\<close>), a worker is whatever \<open>new ZBWorker\<close> returns
  (type \<open>'w\<close>), and \<open>closePromise\<close>, when set, is the \<open>Promise.all\<close> over the workers'
  close promises (type \<open>'p\<close> each).
\<close>

record ('g, 'w, 'p) ZBClient =
  brokerAddress :: string
  closePromise :: "'p list option"
  closing :: bool
  gRPCClient :: 'g
  options :: obj
  workerCount :: nat
  workers :: "'w list"

text \<open>
  The constructor. \<open>env\<close> is \<open>process.env.ZB_NODE_LOG_LEVEL\<close> (a string, or \<open>undefined\<close>
  when the variable is not in the environment); \<open>opts\<close> is the options argument, with
  \<open>None\<close> for an omitted argument (default \<open>{}\<close>).
\<close>

definition new_ZBClient ::
  "(string \<Rightarrow> 'g) \<Rightarrow> jsval \<Rightarrow> string \<Rightarrow> obj option \<Rightarrow> error + ('g, 'w, 'p) ZBClient" where
  "new_ZBClient new_GRPCClient env brokerAddress0 opts =
     (if \<not> truthy (JStr brokerAddress0) then
        Inl (Error ''Must provide a broker address string to constructor'')
      else
        let options0 = (case opts of None \<Rightarrow> Map.empty | Some ob \<Rightarrow> ob);
            options1 = options0(''loglevel'' \<mapsto>
                         js_or (js_or env (get_prop options0 ''loglevel'')) (JStr ''INFO''));
            brokerAddress1 = (if indexOf brokerAddress0 '':'' = - 1
                              then brokerAddress0 @ '':26500'' else brokerAddress0)
        in Inr \<lparr>brokerAddress = brokerAddress1,
                closePromise = None,
                closing = False,
                gRPCClient = new_GRPCClient brokerAddress1,
                options = options1,
                workerCount = 0,
                workers = []\<rparr>)"

text \<open>The argument object handed to the \<open>ZBWorker\<close> constructor.\<close>

record ('g, 'h, 'c) ZBWorkerCtor =
  ctor_gRPCClient :: 'g
  ctor_id :: string
  ctor_idColor :: color
  ctor_onConnectionError :: "'c option"
  ctor_options :: obj
  ctor_taskHandler :: 'h
  ctor_taskType :: string

text \<open>
  \<open>createWorker\<close>. The first component of the result is what the call returns or throws,
  the second is the client afterwards. \<open>new_ZBWorker\<close> stands for the worker class's
  constructor, which is outside the modelled files and may throw.
\<close>

definition createWorker ::
  "(('g, 'h, 'c) ZBWorkerCtor \<Rightarrow> error + 'w) \<Rightarrow> string \<Rightarrow> string \<Rightarrow> 'h \<Rightarrow> obj option \<Rightarrow> 'c option
     \<Rightarrow> ('g, 'w, 'p) ZBClient \<Rightarrow> (error + 'w) \<times> ('g, 'w, 'p) ZBClient" where
  "createWorker new_ZBWorker wid taskType taskHandler opts onConnectionError this =
     (if closing this then
        (Inl (Error ''Client is closing. No worker creation allowed!''), this)
      else
        let idColor = idColors ! (workerCount this mod length idColors);
            this1 = this\<lparr>workerCount := workerCount this + 1\<rparr>;
            options0 = (case opts of None \<Rightarrow> Map.empty | Some ob \<Rightarrow> ob)
        in case new_ZBWorker \<lparr>ctor_gRPCClient = gRPCClient this1,
                              ctor_id = wid,
                              ctor_idColor = idColor,
                              ctor_onConnectionError = onConnectionError,
                              ctor_options = options this1 ++ options0,
                              ctor_taskHandler = taskHandler,
                              ctor_taskType = taskType\<rparr> of
             Inl e \<Rightarrow> (Inl e, this1)
           | Inr worker \<Rightarrow> (Inr worker, this1\<lparr>workers := workers this1 @ [worker]\<rparr>))"

text \<open>
  \<open>close\<close>. \<open>worker_close\<close> stands for \<open>ZBWorker.close\<close>; the calls are made in worker
  order and the first one that throws aborts the \<open>map\<close>.
\<close>

fun close_all :: "('w \<Rightarrow> error + 'p) \<Rightarrow> 'w list \<Rightarrow> error + 'p list" where
  "close_all worker_close [] = Inr []"
| "close_all worker_close (w # ws) =
     (case worker_close w of
        Inl e \<Rightarrow> Inl e
      | Inr p \<Rightarrow> (case close_all worker_close ws of
                    Inl e \<Rightarrow> Inl e
                  | Inr ps \<Rightarrow> Inr (p # ps)))"

definition close ::
  "('w \<Rightarrow> error + 'p) \<Rightarrow> ('g, 'w, 'p) ZBClient \<Rightarrow> (error + 'p list) \<times> ('g, 'w, 'p) ZBClient" where
  "close worker_close this =
     (case closePromise this of
        Some p \<Rightarrow> (Inr p, this)
      | None \<Rightarrow>
          (let this1 = this\<lparr>closing := True\<rparr>
           in (case close_all worker_close (workers this1) of
                 Inl e \<Rightarrow> (Inl e, this1)
               | Inr ps \<Rightarrow> (Inr ps, this1\<lparr>closePromise := Some ps\<rparr>))))"

text \<open>
  A caller's use of the worker factory and of \<open>close\<close> over time: each call is run on the
  client left by the previous one, whatever it returned or threw.
\<close>

datatype ('h, 'c) client_call =
    CreateWorker string string 'h "obj option" "'c option"
  | Close

fun client_step ::
  "(('g, 'h, 'c) ZBWorkerCtor \<Rightarrow> error + 'w) \<Rightarrow> ('w \<Rightarrow> error + 'p) \<Rightarrow> ('h, 'c) client_call
     \<Rightarrow> ('g, 'w, 'p) ZBClient \<Rightarrow> ('g, 'w, 'p) ZBClient" where
  "client_step new_ZBWorker worker_close (CreateWorker wid taskType h opts oce) this =
     snd (createWorker new_ZBWorker wid taskType h opts oce this)"
| "client_step new_ZBWorker worker_close Close this = snd (close worker_close this)"

fun client_run ::
  "(('g, 'h, 'c) ZBWorkerCtor \<Rightarrow> error + 'w) \<Rightarrow> ('w \<Rightarrow> error + 'p) \<Rightarrow> ('h, 'c) client_call list
     \<Rightarrow> ('g, 'w, 'p) ZBClient \<Rightarrow> ('g, 'w, 'p) ZBClient" where
  "client_run new_ZBWorker worker_close [] this = this"
| "client_run new_ZBWorker worker_close (c # cs) this =
     client_run new_ZBWorker worker_close cs (client_step new_ZBWorker worker_close c this)"

section \<open>ZBClient: request operations\<close>

text \<open>
  The collaborators of the request operations that are outside the modelled files:
  \<open>fs.readFileSync\<close> (throws when the file cannot be read), \<open>path.basename\<close>,
  \<open>BpmnParser.getProcessId\<close> (a process id, or \<open>undefined\<close>), \<open>JSON.stringify\<close> (throws on
  a value that has no JSON text) and \<open>stringifyVariables\<close> of the library.
\<close>

datatype Buffer = Buffer string

fun toString :: "Buffer \<Rightarrow> string" where
  "toString (Buffer s) = s"

record Lib =
  readFileSync :: "string \<Rightarrow> error + Buffer"
  basename :: "string \<Rightarrow> string"
  getProcessId :: "string \<Rightarrow> jsval"
  JSON_stringify :: "jsval \<Rightarrow> error + jsval"
  stringifyVariables :: "obj \<Rightarrow> error + obj"

record WorkflowRequestObject =
  wf_definition :: Buffer
  wf_name :: string
  wf_type :: int

record WorkflowMetadata =
  bpmnProcessId :: jsval
  version :: jsval
  workflowKey :: jsval
  resourceName :: jsval

record ListWorkflowResponse =
  workflows :: "WorkflowMetadata list"

record DeployWorkflowResponse = ListWorkflowResponse +
  key :: jsval

text \<open>
  The transport stub. A call that the client awaits gives the outcome of its promise
  (\<open>Inl\<close> for a rejection); the other calls give the promise itself (type \<open>'r\<close>), which
  the client returns without looking at it.
\<close>

record 'r GRPCStub =
  listWorkflowsSync :: "jsval \<Rightarrow> error + ListWorkflowResponse"
  deployWorkflowSync :: "WorkflowRequestObject list \<Rightarrow> error + DeployWorkflowResponse"
  createWorkflowInstanceSync :: "obj \<Rightarrow> 'r"
  setVariablesSync :: "obj \<Rightarrow> 'r"
  getWorkflowSync :: "obj \<Rightarrow> 'r"

text \<open>
  Every remote call is recorded, in order, with the payload the transport sees at the
  moment of the call; a request object that the caller owns is recorded with its
  reference as well.
\<close>

datatype rpc =
    ListWorkflowsSync jsval
  | DeployWorkflowSync "WorkflowRequestObject list"
  | CreateWorkflowInstanceSync obj
  | SetVariablesSync ref obj
  | GetWorkflowSync ref obj

record world =
  heap :: "ref \<Rightarrow> obj"
  sent :: "rpc list"

definition listWorkflows ::
  "'r GRPCStub \<Rightarrow> jsval \<Rightarrow> world \<Rightarrow> (error + ListWorkflowResponse) \<times> world" where
  "listWorkflows g bpmnProcessId0 w =
     (listWorkflowsSync g bpmnProcessId0, w\<lparr>sent := sent w @ [ListWorkflowsSync bpmnProcessId0]\<rparr>)"

text \<open>
  \<open>workflows.map(wf => ({definition: fs.readFileSync(wf), name: path.basename(wf),
  type: 1}))\<close>: the files are read in order and the first failing read throws.
\<close>

fun read_workflows :: "Lib \<Rightarrow> string list \<Rightarrow> error + WorkflowRequestObject list" where
  "read_workflows lib [] = Inr []"
| "read_workflows lib (wf0 # wfs) =
     (case readFileSync lib wf0 of
        Inl e \<Rightarrow> Inl e
      | Inr buf \<Rightarrow>
          (case read_workflows lib wfs of
             Inl e \<Rightarrow> Inl e
           | Inr rs \<Rightarrow> Inr (\<lparr>wf_definition = buf, wf_name = basename lib wf0, wf_type = 1\<rparr> # rs)))"

datatype string_or_array = One string | Many "string list"

text \<open>
  \<open>deployWorkflow\<close> is an \<open>async\<close> function: the first component of the result is the
  outcome of the promise it returns. The option argument is \<open>None\<close> when \<open>redeploy\<close> is
  not given (default \<open>true\<close>).
\<close>

definition deployWorkflow ::
  "Lib \<Rightarrow> 'r GRPCStub \<Rightarrow> string_or_array \<Rightarrow> bool option \<Rightarrow> world
     \<Rightarrow> (error + DeployWorkflowResponse) \<times> world" where
  "deployWorkflow lib g workflow redeploy_opt w =
     (let redeploy = (case redeploy_opt of None \<Rightarrow> True | Some b \<Rightarrow> b);
          workflows0 = (case workflow of Many ps \<Rightarrow> ps | One p \<Rightarrow> [p]);
          (listed, w1) =
            (if \<not> redeploy then
               (case listWorkflows g JUndefined w of
                  (Inl e, w') \<Rightarrow> (Inl e, w')
                | (Inr resp, w') \<Rightarrow> (Inr (map bpmnProcessId (workflows resp)), w'))
             else (Inr [], w))
      in (case listed of
            Inl e \<Rightarrow> (Inl e, w1)
          | Inr deployedWorkflows \<Rightarrow>
              (case read_workflows lib workflows0 of
                 Inl e \<Rightarrow> (Inl e, w1)
               | Inr reqs \<Rightarrow>
                   (let workFlowRequests =
                          filter (\<lambda>wfr. getProcessId lib (toString (wf_definition wfr))
                                          \<notin> set deployedWorkflows) reqs
                    in if length workFlowRequests > 0 then
                         (deployWorkflowSync g workFlowRequests,
                          w1\<lparr>sent := sent w1 @ [DeployWorkflowSync workFlowRequests]\<rparr>)
                       else
                         (Inr \<lparr>workflows = [], key = JNum (- 1)\<rparr>, w1)))))"

text \<open>
  \<open>createWorkflowInstance\<close> builds a fresh request object, so nothing of the caller's is
  shared with the transport.
\<close>

definition createWorkflowInstance ::
  "Lib \<Rightarrow> 'r GRPCStub \<Rightarrow> jsval \<Rightarrow> jsval \<Rightarrow> jsval \<Rightarrow> world \<Rightarrow> (error + 'r) \<times> world" where
  "createWorkflowInstance lib g bpmnProcessId0 variables version0 w =
     (let version1 = js_or version0 (JNum (- 1));
          createWorkflowInstanceRequest =
            [''bpmnProcessId'' \<mapsto> bpmnProcessId0, ''variables'' \<mapsto> variables,
             ''version'' \<mapsto> version1]
      in (case stringifyVariables lib createWorkflowInstanceRequest of
            Inl e \<Rightarrow> (Inl e, w)
          | Inr r \<Rightarrow>
              (Inr (createWorkflowInstanceSync g r),
               w\<lparr>sent := sent w @ [CreateWorkflowInstanceSync r]\<rparr>)))"

text \<open>
  \<open>setVariables\<close> and \<open>getWorkflow\<close> receive a reference to the caller's request object,
  write to that object and hand the same reference to the transport.
\<close>

definition setVariables ::
  "Lib \<Rightarrow> 'r GRPCStub \<Rightarrow> ref \<Rightarrow> world \<Rightarrow> (error + 'r) \<times> world" where
  "setVariables lib g request w =
     (if js_typeof (get_prop (heap w request) ''variables'') = ''object'' then
        (case JSON_stringify lib (get_prop (heap w request) ''variables'') of
           Inl e \<Rightarrow> (Inl e, w)
         | Inr s \<Rightarrow>
             (let w1 = w\<lparr>heap := (heap w)(request := (heap w request)(''variables'' \<mapsto> s))\<rparr>
              in (Inr (setVariablesSync g (heap w1 request)),
                  w1\<lparr>sent := sent w1 @ [SetVariablesSync request (heap w1 request)]\<rparr>)))
      else
        (Inr (setVariablesSync g (heap w request)),
         w\<lparr>sent := sent w @ [SetVariablesSync request (heap w request)]\<rparr>))"

definition hasBpmnProcessId :: "obj \<Rightarrow> bool" where
  "hasBpmnProcessId request = (get_prop request ''bpmnProcessId'' \<noteq> JUndefined)"

definition getWorkflow :: "'r GRPCStub \<Rightarrow> ref \<Rightarrow> world \<Rightarrow> 'r \<times> world" where
  "getWorkflow g getWorkflowRequest w =
     (let w1 = (if hasBpmnProcessId (heap w getWorkflowRequest) then
                  w\<lparr>heap := (heap w)(getWorkflowRequest :=
                        (heap w getWorkflowRequest)(''version'' \<mapsto>
                           js_or (get_prop (heap w getWorkflowRequest) ''version'') (JNum (- 1))))\<rparr>
                else w)
      in (getWorkflowSync g (heap w1 getWorkflowRequest),
          w1\<lparr>sent := sent w1 @ [GetWorkflowSync getWorkflowRequest (heap w1 getWorkflowRequest)]\<rparr>))"

text \<open>
  In every client that the constructor and the two operations above can produce, a
  recorded close promise means that the closing flag is up.
\<close>

definition close_recorded :: "('g, 'w, 'p) ZBClient \<Rightarrow> bool" where
  "close_recorded this = (closePromise this \<noteq> None \<longrightarrow> closing this)"

section \<open>A worked example\<close>

text \<open>
  Concrete collaborators on which the theorems below are exercised: three process files
  whose content is their process id, a parser that returns the content as the id, a
  \<open>JSON.stringify\<close> that knows the texts of \<open>{}\<close>, \<open>[1]\<close> and \<open>null\<close>, a broker
  on which \<open>order\<close> and \<open>payment\<close> are deployed and whose deploy call is rejected, and
  four request objects on the heap.
\<close>

definition example_content :: "string \<Rightarrow> Buffer" where
  "example_content p =
     (if p = ''order.bpmn'' then Buffer ''order''
      else if p = ''payment.bpmn'' then Buffer ''payment''
      else Buffer ''invoice'')"

definition example_readFileSync :: "string \<Rightarrow> error + Buffer" where
  "example_readFileSync p =
     (if p = ''order.bpmn'' \<or> p = ''payment.bpmn'' \<or> p = ''invoice.bpmn''
      then Inr (example_content p) else Inl (Error ''ENOENT''))"

definition example_JSON_stringify :: "jsval \<Rightarrow> error + jsval" where
  "example_JSON_stringify v =
     (if v = JObj [] then Inr (JStr ''{}'')
      else if v = JArr [JNum 1] then Inr (JStr ''[1]'')
      else if v = JNull then Inr (JStr ''null'')
      else Inl (Error ''TypeError''))"

definition example_stringifyVariables :: "obj \<Rightarrow> error + obj" where
  "example_stringifyVariables ob =
     (case example_JSON_stringify (get_prop ob ''variables'') of
        Inl e \<Rightarrow> Inl e
      | Inr s \<Rightarrow> Inr (ob(''variables'' \<mapsto> s)))"

definition example_lib :: Lib where
  "example_lib = \<lparr>readFileSync = example_readFileSync, basename = id, getProcessId = JStr,
     JSON_stringify = example_JSON_stringify, stringifyVariables = example_stringifyVariables\<rparr>"

definition example_listing :: ListWorkflowResponse where
  "example_listing = \<lparr>workflows =
     [\<lparr>bpmnProcessId = JStr ''order'', version = JNum 1, workflowKey = JStr ''1'',
        resourceName = JStr ''order.bpmn''\<rparr>,
      \<lparr>bpmnProcessId = JStr ''payment'', version = JNum 3, workflowKey = JStr ''2'',
        resourceName = JStr ''payment.bpmn''\<rparr>]\<rparr>"

definition example_stub :: "rpc GRPCStub" where
  "example_stub = \<lparr>listWorkflowsSync = (\<lambda>b. Inr example_listing),
     deployWorkflowSync = (\<lambda>ws. Inl (Error ''UNAVAILABLE'')),
     createWorkflowInstanceSync = CreateWorkflowInstanceSync,
     setVariablesSync = SetVariablesSync 0,
     getWorkflowSync = GetWorkflowSync 0\<rparr>"

definition example_heap :: "ref \<Rightarrow> obj" where
  "example_heap r =
     (if r = 0 then [''elementInstanceKey'' \<mapsto> JStr ''7'', ''variables'' \<mapsto> JArr [JNum 1]]
      else if r = 1 then [''elementInstanceKey'' \<mapsto> JStr ''7'', ''variables'' \<mapsto> JStr ''[1]'']
      else if r = 2 then [''bpmnProcessId'' \<mapsto> JStr ''order'']
      else if r = 3 then [''workflowKey'' \<mapsto> JStr ''1'']
      else Map.empty)"

definition example_world :: world where
  "example_world = \<lparr>heap = example_heap, sent = []\<rparr>"

definition example_client ::
  "(string, (string, unit, unit) ZBWorkerCtor, (string, unit, unit) ZBWorkerCtor) ZBClient" where
  "example_client = \<lparr>brokerAddress = ''localhost:26500'', closePromise = None, closing = False,
     gRPCClient = ''localhost:26500'', options = [''loglevel'' \<mapsto> JStr ''INFO''],
     workerCount = 0, workers = []\<rparr>"

section \<open>Properties of the string primitives\<close>

lemma startsWith_iff: "startsWith s t \<longleftrightarrow> (\<exists>post. s = t @ post)"
  by (induction s t rule: startsWith.induct) auto

lemma js_includes_iff: "js_includes s t \<longleftrightarrow> (\<exists>pre post. s = pre @ t @ post)"
proof (induction s)
  case Nil
  then show ?case by simp
next
  case (Cons x xs)
  show ?case
  proof
    assume "js_includes (x # xs) t"
    then consider "startsWith (x # xs) t" | "js_includes xs t" by auto
    then show "\<exists>pre post. x # xs = pre @ t @ post"
    proof cases
      case 1
      then obtain post where "x # xs = t @ post" by (auto simp: startsWith_iff)
      then have "x # xs = [] @ t @ post" by simp
      then show ?thesis by blast
    next
      case 2
      then obtain pre post where "xs = pre @ t @ post" using Cons.IH by blast
      then have "x # xs = (x # pre) @ t @ post" by simp
      then show ?thesis by blast
    qed
  next
    assume "\<exists>pre post. x # xs = pre @ t @ post"
    then obtain pre post where e: "x # xs = pre @ t @ post" by blast
    show "js_includes (x # xs) t"
    proof (cases pre)
      case Nil
      with e have "startsWith (x # xs) t" by (auto simp: startsWith_iff)
      then show ?thesis by simp
    next
      case (Cons y ys)
      with e have "xs = ys @ t @ post" by simp
      then have "js_includes xs t" using Cons.IH by blast
      then show ?thesis by simp
    qed
  qed
qed


lemma indexOf_from_nonneg: "0 \<le> i \<Longrightarrow> js_includes s t \<Longrightarrow> 0 \<le> indexOf_from s t i"
proof (induction s arbitrary: i)
  case Nil
  then show ?case by simp
next
  case (Cons x xs)
  show ?case
  proof (cases "startsWith (x # xs) t")
    case True
    then show ?thesis using Cons.prems by simp
  next
    case False
    then have "js_includes xs t" using Cons.prems by simp
    moreover have "0 \<le> i + 1" using Cons.prems by simp
    ultimately have "0 \<le> indexOf_from xs t (i + 1)" by (rule Cons.IH[rotated])
    then show ?thesis using False by simp
  qed
qed

lemma indexOf_from_absent: "\<not> js_includes s t \<Longrightarrow> indexOf_from s t i = - 1"
  by (induction s arbitrary: i) simp_all

lemma indexOf_minus_one: "indexOf s t = - 1 \<longleftrightarrow> \<not> js_includes s t"
proof
  assume a: "indexOf s t = - 1"
  show "\<not> js_includes s t"
  proof
    assume "js_includes s t"
    then have "0 \<le> indexOf_from s t 0" by (rule indexOf_from_nonneg[rotated]) simp
    then show False using a by (simp add: indexOf_def)
  qed
next
  assume "\<not> js_includes s t"
  then show "indexOf s t = - 1" by (simp add: indexOf_def indexOf_from_absent)
qed

lemma js_includes_colon: "js_includes s '':'' \<longleftrightarrow> (\<exists>h p. s = h @ '':'' @ p)"
  by (rule js_includes_iff)

section \<open>Connection classifier\<close>

text \<open>
  Claim C1. For every broker address, \<open>getCharacteristics\<close> yields the cloud profile with a
  start-up time of 5000 ms when the address contains the substring \<open>zeebe.camunda.io\<close>,
  and the self-managed profile with start-up time 0 for every other address. The result
  depends on the address alone.
\<close>

theorem getCharacteristics_classifies:
  "((\<exists>pre post. host = pre @ ''zeebe.camunda.io'' @ post) \<longrightarrow>
      getCharacteristics host = \<lparr>startupTime = 5000, tag = CAMUNDA_CLOUD\<rparr>) \<and>
   (\<not> (\<exists>pre post. host = pre @ ''zeebe.camunda.io'' @ post) \<longrightarrow>
      getCharacteristics host = \<lparr>startupTime = 0, tag = VANILLA\<rparr>)"
  unfolding js_includes_iff [symmetric] by (simp add: getCharacteristics_def)

theorem getCharacteristics_classifies_witness:
  "getCharacteristics ''x.zeebe.camunda.io:443'' = \<lparr>startupTime = 5000, tag = CAMUNDA_CLOUD\<rparr> \<and>
   getCharacteristics ''localhost'' = \<lparr>startupTime = 0, tag = VANILLA\<rparr>"
proof -
  have "''x.zeebe.camunda.io:443'' = ''x.'' @ ''zeebe.camunda.io'' @ '':443''" by simp
  then have a: "\<exists>pre post. ''x.zeebe.camunda.io:443'' = pre @ ''zeebe.camunda.io'' @ post" by blast
  have "\<not> js_includes ''localhost'' ''zeebe.camunda.io''" by code_simp
  then have b: "\<not> (\<exists>pre post. ''localhost'' = pre @ ''zeebe.camunda.io'' @ post)"
    unfolding js_includes_iff .
  from a b getCharacteristics_classifies [of "''x.zeebe.camunda.io:443''"]
    getCharacteristics_classifies [of "''localhost''"]
  show ?thesis by blast
qed

section \<open>Client construction\<close>

lemma new_ZBClient_ok:
  assumes "addr \<noteq> []"
  shows "new_ZBClient mk env addr opts =
     Inr \<lparr>brokerAddress = (if js_includes addr '':'' then addr else addr @ '':26500''),
          closePromise = None, closing = False,
          gRPCClient = mk (if js_includes addr '':'' then addr else addr @ '':26500''),
          options = (case opts of None \<Rightarrow> Map.empty | Some ob \<Rightarrow> ob)(''loglevel'' \<mapsto>
             js_or (js_or env (get_prop (case opts of None \<Rightarrow> Map.empty | Some ob \<Rightarrow> ob) ''loglevel''))
               (JStr ''INFO'')),
          workerCount = 0, workers = []\<rparr>"
  using assms by (simp add: new_ZBClient_def indexOf_minus_one Let_def)

lemma new_ZBClient_empty:
  "new_ZBClient mk env [] opts = Inl (Error ''Must provide a broker address string to constructor'')"
  by (simp add: new_ZBClient_def)

text \<open>
  Claim C6. For every (non-empty) broker address given at construction, the default port
  26500 is appended exactly when the address has no port part, that is, when it is not of
  the form \<open>host:port\<close>; an address that carries a port is stored as given. The empty
  address is rejected by the constructor (\<open>new_ZBClient_empty\<close>).
\<close>

theorem new_ZBClient_default_port:
  assumes "addr \<noteq> []"
  shows "\<exists>c. (new_ZBClient mk env addr opts :: error + ('g, 'w, 'p) ZBClient) = Inr c \<and>
           brokerAddress c = (if (\<exists>h p. addr = h @ '':'' @ p) then addr else addr @ '':26500'')"
  unfolding js_includes_colon [symmetric]
  by (simp add: new_ZBClient_ok [OF assms])

theorem new_ZBClient_default_port_witness:
  "(\<exists>c. (new_ZBClient id JUndefined ''localhost'' None :: error + (string, unit, unit) ZBClient) = Inr c \<and>
        brokerAddress c = ''localhost:26500'') \<and>
   (\<exists>c. (new_ZBClient id JUndefined ''x.zeebe.camunda.io:443'' None :: error + (string, unit, unit) ZBClient) = Inr c \<and>
        brokerAddress c = ''x.zeebe.camunda.io:443'')"
proof -
  have "\<not> js_includes ''localhost'' '':''" by code_simp
  then have a: "\<not> (\<exists>h p. ''localhost'' = h @ '':'' @ p)" unfolding js_includes_colon .
  have "''x.zeebe.camunda.io:443'' = ''x.zeebe.camunda.io'' @ '':'' @ ''443''" by simp
  then have b: "\<exists>h p. ''x.zeebe.camunda.io:443'' = h @ '':'' @ p" by blast
  have c: "''localhost'' \<noteq> []" "''x.zeebe.camunda.io:443'' \<noteq> []" by simp_all
  have d: "''localhost'' @ '':26500'' = ''localhost:26500''" by simp
  show ?thesis
    using new_ZBClient_default_port [OF c(1), of id JUndefined None, where ?'w = unit and ?'p = unit]
      new_ZBClient_default_port [OF c(2), of id JUndefined None, where ?'w = unit and ?'p = unit]
    unfolding if_not_P [OF a] if_P [OF b] d by blast
qed

text \<open>
  Claim C7, as stated: the environment override wins whenever it is set. This fails for
  an override that is set to the empty string: \<open>||\<close> treats it as absent, and the
  constructor option is taken instead.
\<close>

theorem new_ZBClient_loglevel_empty_env:
  "\<not> isl (new_ZBClient id (JStr []) ''localhost'' (Some [''loglevel'' \<mapsto> JStr ''DEBUG''])
            :: error + (string, unit, unit) ZBClient) \<and>
   get_prop (options (projr (new_ZBClient id (JStr []) ''localhost'' (Some [''loglevel'' \<mapsto> JStr ''DEBUG''])
            :: error + (string, unit, unit) ZBClient))) ''loglevel'' = JStr ''DEBUG'' \<and>
   get_prop (options (projr (new_ZBClient id (JStr []) ''localhost'' (Some [''loglevel'' \<mapsto> JStr ''DEBUG''])
            :: error + (string, unit, unit) ZBClient))) ''loglevel'' \<noteq> JStr []"
proof -
  have ne: "''localhost'' \<noteq> []" by simp
  show ?thesis
    unfolding new_ZBClient_ok [OF ne] by (simp add: get_prop_def js_or_def)
qed

text \<open>
  Claim C7, amended. The resolved log level is the environment override when that is a
  non-empty string; otherwise (override absent or empty) it is the constructor option when
  that is a non-empty level name; otherwise, with no option given, it is \<open>INFO\<close>.
\<close>

theorem new_ZBClient_loglevel:
  assumes "addr \<noteq> []"
  shows "\<exists>c. (new_ZBClient mk env addr opts :: error + ('g, 'w, 'p) ZBClient) = Inr c \<and>
     (\<forall>e. env = JStr e \<and> e \<noteq> [] \<longrightarrow> get_prop (options c) ''loglevel'' = JStr e) \<and>
     (\<forall>ob l. (env = JUndefined \<or> env = JStr []) \<and> opts = Some ob \<and> ob ''loglevel'' = Some (JStr l) \<and> l \<noteq> []
         \<longrightarrow> get_prop (options c) ''loglevel'' = JStr l) \<and>
     ((env = JUndefined \<or> env = JStr []) \<and> (opts = None \<or> (\<exists>ob. opts = Some ob \<and> ob ''loglevel'' = None))
         \<longrightarrow> get_prop (options c) ''loglevel'' = JStr ''INFO'')"
  unfolding new_ZBClient_ok [OF assms]
  by (auto simp: get_prop_def js_or_def)

theorem new_ZBClient_loglevel_witness:
  "(\<exists>c. (new_ZBClient id (JStr ''ERROR'') ''localhost'' (Some [''loglevel'' \<mapsto> JStr ''DEBUG''])
            :: error + (string, unit, unit) ZBClient) = Inr c \<and>
        get_prop (options c) ''loglevel'' = JStr ''ERROR'') \<and>
   (\<exists>c. (new_ZBClient id JUndefined ''localhost'' (Some [''loglevel'' \<mapsto> JStr ''DEBUG''])
            :: error + (string, unit, unit) ZBClient) = Inr c \<and>
        get_prop (options c) ''loglevel'' = JStr ''DEBUG'') \<and>
   (\<exists>c. (new_ZBClient id JUndefined ''localhost'' None
            :: error + (string, unit, unit) ZBClient) = Inr c \<and>
        get_prop (options c) ''loglevel'' = JStr ''INFO'')"
proof -
  have ne: "''localhost'' \<noteq> []" by simp
  have e: "''ERROR'' \<noteq> []" and d: "''DEBUG'' \<noteq> []" by simp_all
  have m: "[''loglevel'' \<mapsto> JStr ''DEBUG''] ''loglevel'' = Some (JStr ''DEBUG'')" by simp
  show ?thesis
    using new_ZBClient_loglevel [OF ne, of id "JStr ''ERROR''" "Some [''loglevel'' \<mapsto> JStr ''DEBUG'']",
        where ?'w = unit and ?'p = unit]
      new_ZBClient_loglevel [OF ne, of id JUndefined "Some [''loglevel'' \<mapsto> JStr ''DEBUG'']",
        where ?'w = unit and ?'p = unit]
      new_ZBClient_loglevel [OF ne, of id JUndefined None, where ?'w = unit and ?'p = unit]
      e d m by blast
qed

section \<open>Worker creation after close\<close>

lemma new_ZBClient_close_recorded:
  "new_ZBClient mk env addr opts = Inr c \<Longrightarrow> close_recorded c"
  by (cases "addr = []") (auto simp: new_ZBClient_empty new_ZBClient_ok close_recorded_def)

lemma close_closing: "close_recorded this \<Longrightarrow> closing (snd (close worker_close this))"
  by (auto simp: close_def close_recorded_def Let_def split: option.splits sum.splits)

lemma close_keeps_closing: "closing this \<Longrightarrow> closing (snd (close worker_close this))"
  by (auto simp: close_def Let_def split: option.splits sum.splits)

lemma close_keeps_recorded: "close_recorded this \<Longrightarrow> close_recorded (snd (close worker_close this))"
  by (auto simp: close_def close_recorded_def Let_def split: option.splits sum.splits)

lemma close_workers: "workers (snd (close worker_close this)) = workers this"
  by (auto simp: close_def Let_def split: option.splits sum.splits)

lemma createWorker_closing:
  "closing this \<Longrightarrow> createWorker nw wid tt h opts oce this =
     (Inl (Error ''Client is closing. No worker creation allowed!''), this)"
  by (simp add: createWorker_def)

lemma createWorker_keeps_recorded:
  "close_recorded this \<Longrightarrow> close_recorded (snd (createWorker nw wid tt h opts oce this))"
  by (auto simp: createWorker_def close_recorded_def Let_def split: sum.splits)

lemma client_step_recorded:
  "close_recorded this \<Longrightarrow> close_recorded (client_step nw wc c this)"
  by (cases c) (simp_all add: createWorker_keeps_recorded close_keeps_recorded)

lemma client_run_recorded:
  "close_recorded this \<Longrightarrow> close_recorded (client_run nw wc cs this)"
  by (induction cs arbitrary: this) (simp_all add: client_step_recorded)

lemma client_step_closing:
  "closing this \<Longrightarrow> closing (client_step nw wc c this) \<and> workers (client_step nw wc c this) = workers this"
  by (cases c) (simp_all add: createWorker_closing close_keeps_closing close_workers)

lemma client_run_closing:
  "closing this \<Longrightarrow> closing (client_run nw wc cs this) \<and> workers (client_run nw wc cs this) = workers this"
proof (induction cs arbitrary: this)
  case Nil
  then show ?case by simp
next
  case (Cons c cs)
  from client_step_closing [OF Cons.prems, of nw wc c]
  have a: "closing (client_step nw wc c this)"
    and b: "workers (client_step nw wc c this) = workers this" by simp_all
  from Cons.IH [OF a] b show ?case by simp
qed

lemma client_run_append:
  "client_run nw wc (xs @ ys) this = client_run nw wc ys (client_run nw wc xs this)"
  by (induction xs arbitrary: this) simp_all

text \<open>
  Claim C8. On a client made by the constructor, once \<open>close\<close> has been called (after any
  earlier calls, and followed by any later ones), every \<open>createWorker\<close> call throws the
  error \<open>Client is closing. No worker creation allowed!\<close> and leaves the client as it
  was; the worker list is the one that existed when \<open>close\<close> was called.
\<close>

theorem createWorker_after_close:
  assumes "new_ZBClient mk env addr opts = Inr c0"
  shows "createWorker nw wid tt h wopts oce (client_run nw wc (before @ Close # after) c0) =
           (Inl (Error ''Client is closing. No worker creation allowed!''),
            client_run nw wc (before @ Close # after) c0) \<and>
         workers (client_run nw wc (before @ Close # after) c0) = workers (client_run nw wc before c0)"
proof -
  let ?c1 = "client_run nw wc before c0"
  let ?c2 = "snd (close wc ?c1)"
  have "close_recorded ?c1"
    by (rule client_run_recorded) (rule new_ZBClient_close_recorded [OF assms])
  then have "closing ?c2" by (rule close_closing)
  from client_run_closing [OF this, of nw wc after]
  have a: "closing (client_run nw wc after ?c2)"
    and b: "workers (client_run nw wc after ?c2) = workers ?c2" by simp_all
  have e: "client_run nw wc (before @ Close # after) c0 = client_run nw wc after ?c2"
    by (simp add: client_run_append)
  show ?thesis
    unfolding e using createWorker_closing [OF a] b by (simp add: close_workers)
qed

theorem createWorker_after_close_witness:
  "new_ZBClient id JUndefined ''localhost'' None = Inr example_client \<and>
   createWorker Inr ''w2'' ''pay'' () None None
       (client_run Inr Inr ([CreateWorker ''w1'' ''ship'' () None None] @ Close # [Close]) example_client) =
     (Inl (Error ''Client is closing. No worker creation allowed!''),
      client_run Inr Inr ([CreateWorker ''w1'' ''ship'' () None None] @ Close # [Close]) example_client) \<and>
   workers (client_run Inr Inr ([CreateWorker ''w1'' ''ship'' () None None] @ Close # [Close])
       example_client) =
     workers (client_run Inr Inr [CreateWorker ''w1'' ''ship'' () None None] example_client)"
proof -
  have ne: "''localhost'' \<noteq> []" by simp
  have "\<not> js_includes ''localhost'' '':''" by code_simp
  then have c: "new_ZBClient id JUndefined ''localhost'' None = Inr example_client"
    unfolding new_ZBClient_ok [OF ne] by (simp add: example_client_def js_or_def get_prop_def)
  from createWorker_after_close [OF c, of Inr "''w2''" "''pay''" "()" None None Inr
      "[CreateWorker ''w1'' ''ship'' () None None]" "[Close]"] c
  show ?thesis by simp
qed

section \<open>Request operations\<close>

lemma example_heap_at:
  "heap example_world 0 = [''elementInstanceKey'' \<mapsto> JStr ''7'', ''variables'' \<mapsto> JArr [JNum 1]]"
  "heap example_world 1 = [''elementInstanceKey'' \<mapsto> JStr ''7'', ''variables'' \<mapsto> JStr ''[1]'']"
  "heap example_world 2 = [''bpmnProcessId'' \<mapsto> JStr ''order'']"
  "heap example_world 3 = [''workflowKey'' \<mapsto> JStr ''1'']"
  "sent example_world = []"
  by (simp_all add: example_world_def example_heap_def)

text \<open>
  Claim C4. When the \<open>variables\<close> field of a \<open>setVariables\<close> request is an object, the
  request handed to the transport carries the result of \<open>JSON.stringify\<close> on it in that
  field (and nothing is sent when \<open>JSON.stringify\<close> throws); when the field is a string,
  the request is handed over unchanged.
\<close>

theorem setVariables_serializes:
  "(js_typeof (get_prop (heap w request) ''variables'') = ''object'' \<and>
    JSON_stringify lib (get_prop (heap w request) ''variables'') = Inr s \<longrightarrow>
      fst (setVariables lib g request w) =
        Inr (setVariablesSync g ((heap w request)(''variables'' \<mapsto> s))) \<and>
      sent (snd (setVariables lib g request w)) =
        sent w @ [SetVariablesSync request ((heap w request)(''variables'' \<mapsto> s))]) \<and>
   (js_typeof (get_prop (heap w request) ''variables'') = ''object'' \<and>
    JSON_stringify lib (get_prop (heap w request) ''variables'') = Inl e \<longrightarrow>
      setVariables lib g request w = (Inl e, w)) \<and>
   (get_prop (heap w request) ''variables'' = JStr t \<longrightarrow>
      fst (setVariables lib g request w) = Inr (setVariablesSync g (heap w request)) \<and>
      sent (snd (setVariables lib g request w)) =
        sent w @ [SetVariablesSync request (heap w request)] \<and>
      heap (snd (setVariables lib g request w)) = heap w)"
  by (simp add: setVariables_def Let_def)

theorem setVariables_serializes_witness:
  "fst (setVariables example_lib example_stub 0 example_world) =
     Inr (SetVariablesSync 0 [''elementInstanceKey'' \<mapsto> JStr ''7'', ''variables'' \<mapsto> JStr ''[1]'']) \<and>
   sent (snd (setVariables example_lib example_stub 0 example_world)) =
     [SetVariablesSync 0 [''elementInstanceKey'' \<mapsto> JStr ''7'', ''variables'' \<mapsto> JStr ''[1]'']] \<and>
   sent (snd (setVariables example_lib example_stub 1 example_world)) =
     [SetVariablesSync 1 [''elementInstanceKey'' \<mapsto> JStr ''7'', ''variables'' \<mapsto> JStr ''[1]'']] \<and>
   heap (snd (setVariables example_lib example_stub 1 example_world)) = heap example_world"
proof -
  have h0: "heap example_world 0 =
      [''elementInstanceKey'' \<mapsto> JStr ''7'', ''variables'' \<mapsto> JArr [JNum 1]]"
    and h1: "heap example_world 1 =
      [''elementInstanceKey'' \<mapsto> JStr ''7'', ''variables'' \<mapsto> JStr ''[1]'']"
    and s: "sent example_world = []"
    by (simp_all add: example_world_def example_heap_def)
  have v0: "get_prop (heap example_world 0) ''variables'' = JArr [JNum 1]"
    and v1: "get_prop (heap example_world 1) ''variables'' = JStr ''[1]''"
    unfolding h0 h1 by (simp_all add: get_prop_def)
  have t: "js_typeof (get_prop (heap example_world 0) ''variables'') = ''object''"
    unfolding v0 by simp
  have j: "JSON_stringify example_lib (get_prop (heap example_world 0) ''variables'') = Inr (JStr ''[1]'')"
    unfolding v0 by (simp add: example_lib_def example_JSON_stringify_def)
  have g: "setVariablesSync example_stub = SetVariablesSync 0"
    by (simp add: example_stub_def)
  from setVariables_serializes [of example_world 0 example_lib "JStr ''[1]''" example_stub _ "''[1]''"]
    setVariables_serializes [of example_world 1 example_lib _ example_stub _ "''[1]''"]
    t j v1
  show ?thesis unfolding h0 h1 s g by simp
qed

text \<open>
  Claim C9. \<open>setVariables\<close> and \<open>getWorkflow\<close> write to the caller's request object
  itself: after \<open>setVariables\<close> the caller's \<open>variables\<close> field holds the JSON text and no
  longer the object, after \<open>getWorkflow\<close> on a request with a process id and no version
  the caller's \<open>version\<close> field holds -1; the transport receives that same object, and no
  other object changes.
\<close>

theorem request_mutated_in_place:
  "(js_typeof (get_prop (heap w request) ''variables'') = ''object'' \<and>
    JSON_stringify lib (get_prop (heap w request) ''variables'') = Inr (JStr t) \<longrightarrow>
      get_prop (heap (snd (setVariables lib g request w)) request) ''variables'' = JStr t \<and>
      get_prop (heap (snd (setVariables lib g request w)) request) ''variables'' \<noteq>
        get_prop (heap w request) ''variables'' \<and>
      last (sent (snd (setVariables lib g request w))) =
        SetVariablesSync request (heap (snd (setVariables lib g request w)) request) \<and>
      (\<forall>r. r \<noteq> request \<longrightarrow> heap (snd (setVariables lib g request w)) r = heap w r)) \<and>
   (hasBpmnProcessId (heap w request) \<and> get_prop (heap w request) ''version'' = JUndefined \<longrightarrow>
      get_prop (heap (snd (getWorkflow g request w)) request) ''version'' = JNum (- 1) \<and>
      last (sent (snd (getWorkflow g request w))) =
        GetWorkflowSync request (heap (snd (getWorkflow g request w)) request) \<and>
      (\<forall>r. r \<noteq> request \<longrightarrow> heap (snd (getWorkflow g request w)) r = heap w r))"
proof -
  have "js_typeof (get_prop (heap w request) ''variables'') = ''object'' \<Longrightarrow>
        get_prop (heap w request) ''variables'' \<noteq> JStr t"
    by (cases "get_prop (heap w request) ''variables''") simp_all
  then show ?thesis
    by (auto simp: setVariables_def getWorkflow_def Let_def get_prop_def js_or_def)
qed

theorem request_mutated_in_place_witness:
  "get_prop (heap (snd (setVariables example_lib example_stub 0 example_world)) 0) ''variables'' =
     JStr ''[1]'' \<and>
   get_prop (heap example_world 0) ''variables'' = JArr [JNum 1] \<and>
   get_prop (heap (snd (getWorkflow example_stub 2 example_world)) 2) ''version'' = JNum (- 1) \<and>
   get_prop (heap example_world 2) ''version'' = JUndefined"
proof -
  have v0: "get_prop (heap example_world 0) ''variables'' = JArr [JNum 1]"
    and v2: "get_prop (heap example_world 2) ''version'' = JUndefined"
    and b2: "hasBpmnProcessId (heap example_world 2)"
    unfolding example_heap_at by (simp_all add: get_prop_def hasBpmnProcessId_def)
  have t: "js_typeof (get_prop (heap example_world 0) ''variables'') = ''object''"
    unfolding v0 by simp
  have j: "JSON_stringify example_lib (get_prop (heap example_world 0) ''variables'') = Inr (JStr ''[1]'')"
    unfolding v0 by (simp add: example_lib_def example_JSON_stringify_def)
  from request_mutated_in_place [of example_world 0 example_lib "''[1]''" example_stub]
    request_mutated_in_place [of example_world 2 example_lib _ example_stub]
    t j v0 v2 b2
  show ?thesis by simp
qed

text \<open>
  Claim C5. An unset version becomes -1 only for requests that carry a process id:
  \<open>getWorkflow\<close> sends a request with a process id and no version with version -1,
  sends a request without a process id (a lookup by key) exactly as it is, and
  \<open>createWorkflowInstance\<close>, which always names a process id, builds its request with
  version -1 when no version is given.
\<close>

theorem version_defaulted_for_process_id_only:
  "(hasBpmnProcessId (heap w request) \<and> get_prop (heap w request) ''version'' = JUndefined \<longrightarrow>
      sent (snd (getWorkflow g request w)) =
        sent w @ [GetWorkflowSync request ((heap w request)(''version'' \<mapsto> JNum (- 1)))]) \<and>
   (\<not> hasBpmnProcessId (heap w request) \<longrightarrow>
      getWorkflow g request w =
        (getWorkflowSync g (heap w request),
         w\<lparr>sent := sent w @ [GetWorkflowSync request (heap w request)]\<rparr>)) \<and>
   (stringifyVariables lib
        [''bpmnProcessId'' \<mapsto> pid, ''variables'' \<mapsto> vars, ''version'' \<mapsto> JNum (- 1)] = Inr rq \<longrightarrow>
      sent (snd (createWorkflowInstance lib g pid vars JUndefined w)) =
        sent w @ [CreateWorkflowInstanceSync rq])"
  by (simp add: getWorkflow_def createWorkflowInstance_def Let_def js_or_def)

theorem version_defaulted_for_process_id_only_witness:
  "sent (snd (getWorkflow example_stub 2 example_world)) =
     [GetWorkflowSync 2 [''bpmnProcessId'' \<mapsto> JStr ''order'', ''version'' \<mapsto> JNum (- 1)]] \<and>
   sent (snd (getWorkflow example_stub 3 example_world)) =
     [GetWorkflowSync 3 [''workflowKey'' \<mapsto> JStr ''1'']] \<and>
   heap (snd (getWorkflow example_stub 3 example_world)) = heap example_world \<and>
   sent (snd (createWorkflowInstance example_lib example_stub (JStr ''order'') JNull JUndefined
     example_world)) =
     [CreateWorkflowInstanceSync [''bpmnProcessId'' \<mapsto> JStr ''order'',
        ''variables'' \<mapsto> JStr ''null'', ''version'' \<mapsto> JNum (- 1)]]"
proof -
  have v2: "get_prop (heap example_world 2) ''version'' = JUndefined"
    and b2: "hasBpmnProcessId (heap example_world 2)"
    and b3: "\<not> hasBpmnProcessId (heap example_world 3)"
    unfolding example_heap_at by (simp_all add: get_prop_def hasBpmnProcessId_def)
  have sv: "stringifyVariables example_lib
      [''bpmnProcessId'' \<mapsto> JStr ''order'', ''variables'' \<mapsto> JNull, ''version'' \<mapsto> JNum (- 1)] =
      Inr [''bpmnProcessId'' \<mapsto> JStr ''order'', ''variables'' \<mapsto> JStr ''null'',
           ''version'' \<mapsto> JNum (- 1)]"
    by (simp add: example_lib_def example_stringifyVariables_def example_JSON_stringify_def get_prop_def)
       (auto simp: fun_eq_iff)
  from version_defaulted_for_process_id_only [where w = example_world and request = 2
      and g = example_stub and lib = example_lib]
    version_defaulted_for_process_id_only [where w = example_world and request = 3
      and g = example_stub and lib = example_lib and pid = "JStr ''order''" and vars = JNull
      and rq = "[''bpmnProcessId'' \<mapsto> JStr ''order'', ''variables'' \<mapsto> JStr ''null'',
           ''version'' \<mapsto> JNum (- 1)]"] v2 b2 b3 sv
  show ?thesis unfolding example_heap_at by simp
qed

text \<open>
  Claim C10. \<open>createWorkflowInstance\<close> with the explicit version 0 does exactly what it
  does with no version: the request it builds, and sends after \<open>stringifyVariables\<close>,
  has version -1.
\<close>

theorem createWorkflowInstance_version_zero:
  "createWorkflowInstance lib g pid vars (JNum 0) w =
     createWorkflowInstance lib g pid vars JUndefined w \<and>
   (stringifyVariables lib
        [''bpmnProcessId'' \<mapsto> pid, ''variables'' \<mapsto> vars, ''version'' \<mapsto> JNum (- 1)] = Inr rq \<longrightarrow>
      createWorkflowInstance lib g pid vars (JNum 0) w =
        (Inr (createWorkflowInstanceSync g rq),
         w\<lparr>sent := sent w @ [CreateWorkflowInstanceSync rq]\<rparr>))"
  by (simp add: createWorkflowInstance_def Let_def js_or_def)

theorem createWorkflowInstance_version_zero_witness:
  "createWorkflowInstance example_lib example_stub (JStr ''order'') JNull (JNum 0) example_world =
     (Inr (CreateWorkflowInstanceSync [''bpmnProcessId'' \<mapsto> JStr ''order'',
        ''variables'' \<mapsto> JStr ''null'', ''version'' \<mapsto> JNum (- 1)]),
      example_world\<lparr>sent := [CreateWorkflowInstanceSync [''bpmnProcessId'' \<mapsto> JStr ''order'',
        ''variables'' \<mapsto> JStr ''null'', ''version'' \<mapsto> JNum (- 1)]]\<rparr>)"
proof -
  have sv: "stringifyVariables example_lib
      [''bpmnProcessId'' \<mapsto> JStr ''order'', ''variables'' \<mapsto> JNull, ''version'' \<mapsto> JNum (- 1)] =
      Inr [''bpmnProcessId'' \<mapsto> JStr ''order'', ''variables'' \<mapsto> JStr ''null'',
           ''version'' \<mapsto> JNum (- 1)]"
    by (simp add: example_lib_def example_stringifyVariables_def example_JSON_stringify_def get_prop_def)
       (auto simp: fun_eq_iff)
  have g: "createWorkflowInstanceSync example_stub = CreateWorkflowInstanceSync"
    by (simp add: example_stub_def)
  from createWorkflowInstance_version_zero [where lib = example_lib and g = example_stub
      and pid = "JStr ''order''" and vars = JNull and w = example_world
      and rq = "[''bpmnProcessId'' \<mapsto> JStr ''order'', ''variables'' \<mapsto> JStr ''null'',
           ''version'' \<mapsto> JNum (- 1)]"] sv
  have "createWorkflowInstance example_lib example_stub (JStr ''order'') JNull (JNum 0) example_world =
     (Inr (createWorkflowInstanceSync example_stub [''bpmnProcessId'' \<mapsto> JStr ''order'',
        ''variables'' \<mapsto> JStr ''null'', ''version'' \<mapsto> JNum (- 1)]),
      example_world\<lparr>sent := sent example_world @ [CreateWorkflowInstanceSync
        [''bpmnProcessId'' \<mapsto> JStr ''order'', ''variables'' \<mapsto> JStr ''null'',
         ''version'' \<mapsto> JNum (- 1)]]\<rparr>)"
    by blast
  then show ?thesis unfolding example_heap_at g by simp
qed

section \<open>Deployment without redeploy\<close>

lemma read_workflows_map:
  "\<forall>p\<in>set ps. readFileSync lib p = Inr (content p) \<Longrightarrow>
     read_workflows lib ps =
       Inr (map (\<lambda>p. \<lparr>wf_definition = content p, wf_name = basename lib p, wf_type = 1\<rparr>) ps)"
  by (induction ps) simp_all

lemma deployWorkflow_listed:
  assumes "listWorkflowsSync g JUndefined = Inr resp"
      and "read_workflows lib paths = Inr reqs"
  shows "deployWorkflow lib g (Many paths) (Some False) w =
     (if filter (\<lambda>wfr. getProcessId lib (toString (wf_definition wfr))
                        \<notin> bpmnProcessId ` set (workflows resp)) reqs = []
      then (Inr \<lparr>workflows = [], key = JNum (- 1)\<rparr>,
            w\<lparr>sent := sent w @ [ListWorkflowsSync JUndefined]\<rparr>)
      else (deployWorkflowSync g
              (filter (\<lambda>wfr. getProcessId lib (toString (wf_definition wfr))
                        \<notin> bpmnProcessId ` set (workflows resp)) reqs),
            w\<lparr>sent := sent w @ [ListWorkflowsSync JUndefined,
               DeployWorkflowSync
                 (filter (\<lambda>wfr. getProcessId lib (toString (wf_definition wfr))
                        \<notin> bpmnProcessId ` set (workflows resp)) reqs)]\<rparr>))"
  using assms by (simp add: deployWorkflow_def listWorkflows_def Let_def)

lemma example_listed: "listWorkflowsSync example_stub JUndefined = Inr example_listing"
  by (simp add: example_stub_def)

text \<open>
  Claim C2. With \<open>redeploy = false\<close>, \<open>deployWorkflow\<close> on a list of readable files first
  lists the deployed workflows, then keeps the files whose process id is not among the
  listed ones; when none is kept it returns \<open>{key: -1, workflows: []}\<close> and the listing is
  the only call made, otherwise it makes one deploy call with exactly the kept files, in
  order.
\<close>

theorem deployWorkflow_skips_deployed:
  assumes "listWorkflowsSync g JUndefined = Inr resp"
      and "\<forall>p\<in>set paths. readFileSync lib p = Inr (content p)"
  shows "deployWorkflow lib g (Many paths) (Some False) w =
     (let kept = filter (\<lambda>p. getProcessId lib (toString (content p))
                              \<notin> bpmnProcessId ` set (workflows resp)) paths;
          requests = map (\<lambda>p. \<lparr>wf_definition = content p, wf_name = basename lib p, wf_type = 1\<rparr>) kept
      in if kept = []
         then (Inr \<lparr>workflows = [], key = JNum (- 1)\<rparr>,
               w\<lparr>sent := sent w @ [ListWorkflowsSync JUndefined]\<rparr>)
         else (deployWorkflowSync g requests,
               w\<lparr>sent := sent w @ [ListWorkflowsSync JUndefined, DeployWorkflowSync requests]\<rparr>))"
  unfolding deployWorkflow_listed [OF assms(1) read_workflows_map [OF assms(2)]]
  by (simp add: filter_map o_def Let_def)

theorem deployWorkflow_skips_deployed_witness:
  "deployWorkflow example_lib example_stub (Many [''order.bpmn'', ''invoice.bpmn'']) (Some False)
     example_world =
     (Inl (Error ''UNAVAILABLE''),
      example_world\<lparr>sent := [ListWorkflowsSync JUndefined,
         DeployWorkflowSync [\<lparr>wf_definition = Buffer ''invoice'', wf_name = ''invoice.bpmn'',
           wf_type = 1\<rparr>]]\<rparr>)"
proof -
  have r: "\<forall>p\<in>set [''order.bpmn'', ''invoice.bpmn'']. readFileSync example_lib p = Inr (example_content p)"
    by (simp add: example_lib_def example_readFileSync_def)
  show ?thesis
    unfolding deployWorkflow_skips_deployed [OF example_listed r]
    by (simp add: example_lib_def example_listing_def example_content_def example_stub_def
        example_world_def Let_def)
qed

text \<open>
  Claim C3, as stated: when every file's process id is already deployed, no remote call of
  any kind is issued. This fails: the listing of the deployed workflows is itself a remote
  call, and it is issued.
\<close>

theorem deployWorkflow_all_deployed_still_lists:
  "readFileSync example_lib ''order.bpmn'' = Inr (Buffer ''order'') \<and>
   getProcessId example_lib (toString (Buffer ''order'')) = JStr ''order'' \<and>
   JStr ''order'' \<in> bpmnProcessId ` set (workflows example_listing) \<and>
   listWorkflowsSync example_stub JUndefined = Inr example_listing \<and>
   sent example_world = [] \<and>
   fst (deployWorkflow example_lib example_stub (Many [''order.bpmn'']) (Some False) example_world) =
     Inr \<lparr>workflows = [], key = JNum (- 1)\<rparr> \<and>
   sent (snd (deployWorkflow example_lib example_stub (Many [''order.bpmn'']) (Some False)
     example_world)) = [ListWorkflowsSync JUndefined]"
proof -
  have a: "readFileSync example_lib ''order.bpmn'' = Inr (Buffer ''order'')"
    by (simp add: example_lib_def example_readFileSync_def example_content_def)
  have b: "getProcessId example_lib (toString (Buffer ''order'')) = JStr ''order''"
    by (simp add: example_lib_def)
  have c: "JStr ''order'' \<in> bpmnProcessId ` set (workflows example_listing)"
    by (simp add: example_listing_def)
  have d: "sent example_world = []" by (simp add: example_world_def)
  have r: "read_workflows example_lib [''order.bpmn''] =
      Inr [\<lparr>wf_definition = Buffer ''order'', wf_name = ''order.bpmn'', wf_type = 1\<rparr>]"
    by (simp add: a) (simp add: example_lib_def)
  have e: "deployWorkflow example_lib example_stub (Many [''order.bpmn'']) (Some False) example_world =
      (Inr \<lparr>workflows = [], key = JNum (- 1)\<rparr>,
       example_world\<lparr>sent := sent example_world @ [ListWorkflowsSync JUndefined]\<rparr>)"
    unfolding deployWorkflow_listed [OF example_listed r] using b c by simp
  show ?thesis using a b c d example_listed by (simp add: e)
qed

text \<open>
  Claim C3, amended. When the listing succeeds and every file is readable with a process
  id that is already deployed, \<open>deployWorkflow\<close> with \<open>redeploy = false\<close> returns
  \<open>{key: -1, workflows: []}\<close> and issues exactly one remote call, the listing; no deploy
  call is issued.
\<close>

theorem deployWorkflow_all_deployed:
  assumes "listWorkflowsSync g JUndefined = Inr resp"
      and "\<forall>p\<in>set paths. \<exists>buf. readFileSync lib p = Inr buf \<and>
             getProcessId lib (toString buf) \<in> bpmnProcessId ` set (workflows resp)"
  shows "fst (deployWorkflow lib g (Many paths) (Some False) w) =
           Inr \<lparr>workflows = [], key = JNum (- 1)\<rparr> \<and>
         sent (snd (deployWorkflow lib g (Many paths) (Some False) w)) =
           sent w @ [ListWorkflowsSync JUndefined]"
proof -
  define content where "content p = (case readFileSync lib p of Inr buf \<Rightarrow> buf | Inl e \<Rightarrow> Buffer [])" for p
  have r: "\<forall>p\<in>set paths. readFileSync lib p = Inr (content p)"
    using assms(2) by (auto simp: content_def)
  have d: "\<forall>p\<in>set paths. getProcessId lib (toString (content p)) \<in> bpmnProcessId ` set (workflows resp)"
    using assms(2) by (auto simp: content_def)
  have "filter (\<lambda>wfr. getProcessId lib (toString (wf_definition wfr))
                        \<notin> bpmnProcessId ` set (workflows resp))
          (map (\<lambda>p. \<lparr>wf_definition = content p, wf_name = basename lib p, wf_type = 1\<rparr>) paths) = []"
    using d by (simp add: filter_empty_conv)
  then show ?thesis
    unfolding deployWorkflow_listed [OF assms(1) read_workflows_map [OF r]] by simp
qed

theorem deployWorkflow_all_deployed_witness:
  "fst (deployWorkflow example_lib example_stub (Many [''order.bpmn'', ''payment.bpmn'']) (Some False)
          example_world) = Inr \<lparr>workflows = [], key = JNum (- 1)\<rparr> \<and>
   sent (snd (deployWorkflow example_lib example_stub (Many [''order.bpmn'', ''payment.bpmn''])
          (Some False) example_world)) = sent example_world @ [ListWorkflowsSync JUndefined]"
proof -
  have r: "\<forall>p\<in>set [''order.bpmn'', ''payment.bpmn'']. \<exists>buf.
             readFileSync example_lib p = Inr buf \<and>
             getProcessId example_lib (toString buf) \<in> bpmnProcessId ` set (workflows example_listing)"
    by (simp add: example_lib_def example_readFileSync_def example_content_def example_listing_def)
  show ?thesis
    by (rule deployWorkflow_all_deployed [OF example_listed r])
qed

end
